theory Spec2Isabelle
  imports Main
begin

section \<open>Job execution engine (src/server/middleware/jobs/job.js)\<close>

subsection \<open>States, events and the transition table\<close>

text \<open>
  The state and event names are JavaScript strings in the source; they are used as an
  enumeration, so each is a constructor here. \<open>event_name\<close> gives back the string of an
  event, which the source inspects with \<open>indexOf\<close>. \<open>Startup\<close> is the event with which the
  state machine enters its initial state (from no state), \<open>CancelDone\<close> is the event that
  \<open>Job.prototype.cancel\<close> fires at line 269.
\<close>

datatype state =
  Ready | Starting | Running | Pausing | Paused | Resuming | Canceling | Canceled | Complete

datatype event =
  Startup
  | Start | StartFail | StartDone
  | Pause | PauseFail | PauseDone
  | Resume | ResumeFail | ResumeDone
  | RunningDone
  | Cancel | CancelFail | CancelDone

fun event_name :: "event \<Rightarrow> string" where
  "event_name Startup = ''startup''"
| "event_name Start = ''start''"
| "event_name StartFail = ''startFail''"
| "event_name StartDone = ''startDone''"
| "event_name Pause = ''pause''"
| "event_name PauseFail = ''pauseFail''"
| "event_name PauseDone = ''pauseDone''"
| "event_name Resume = ''resume''"
| "event_name ResumeFail = ''resumeFail''"
| "event_name ResumeDone = ''resumeDone''"
| "event_name RunningDone = ''runningDone''"
| "event_name Cancel = ''cancel''"
| "event_name CancelFail = ''cancelFail''"
| "event_name CancelDone = ''cancelDone''"

text \<open>A row of \<open>fsmSettings.events\<close>: name, the states it leaves, the state it enters.\<close>

type_synonym row = "event \<times> state list \<times> state"

definition cancelable :: "state list" where
  "cancelable = [Running, Paused, Starting, Pausing, Resuming]"

definition events :: "row list" where
  "events =
    [ (Start,       [Ready],     Starting),
      (StartFail,   [Starting],  Ready),
      (StartDone,   [Starting],  Running),
      (Pause,       [Running],   Pausing),
      (Pause,       [Paused],    Paused),
      (PauseFail,   [Pausing],   Running),
      (PauseDone,   [Pausing],   Paused),
      (Resume,      [Paused],    Resuming),
      (Resume,      [Running],   Running),
      (ResumeFail,  [Resuming],  Paused),
      (ResumeDone,  [Resuming],  Running),
      (RunningDone, [Running],   Complete),
      (Cancel,      cancelable,  Canceling),
      (CancelFail,  [Canceling], Canceled) ]"

text \<open>The row of an event for a state: the first row of that name that leaves the state
  (no two rows of the table share a name and a source state).\<close>

fun lookup_row :: "row list \<Rightarrow> event \<Rightarrow> state \<Rightarrow> state option" where
  "lookup_row [] ev s = None"
| "lookup_row ((n, froms, t) # rows) ev s =
     (if n = ev \<and> s \<in> set froms then Some t else lookup_row rows ev s)"

subsection \<open>JavaScript strings: indexOf\<close>

fun starts_with :: "string \<Rightarrow> string \<Rightarrow> bool" where
  "starts_with s [] = True"
| "starts_with [] (p # ps) = False"
| "starts_with (c # cs) (p # ps) = (c = p \<and> starts_with cs ps)"

fun indexOf_from :: "string \<Rightarrow> string \<Rightarrow> int \<Rightarrow> int" where
  "indexOf_from [] p i = (if p = [] then i else - 1)"
| "indexOf_from (c # cs) p i =
     (if starts_with (c # cs) p then i else indexOf_from cs p (i + 1))"

definition indexOf :: "string \<Rightarrow> string \<Rightarrow> int" where
  "indexOf s p = indexOf_from s p 0"

subsection \<open>The job, its public projection and its effects\<close>

text \<open>Numbers that may be \<open>null\<close> or \<open>undefined\<close> in the reply of \<open>getJob\<close>, and the
  \<open>fileUuid\<close> of the reply, which is \<open>false\<close> when the job has no file.\<close>

datatype js_num = JNull | JUndefined | JNum int

datatype file_ref = JFalse | JFile string

text \<open>The object returned by \<open>getJob\<close> (lines 175-183).\<close>

record job_json =
  j_botUuid :: string
  j_uuid :: string
  j_state :: state
  j_fileUuid :: file_ref
  j_started :: js_num
  j_elapsed :: js_num
  j_percentComplete :: int

text \<open>The attributes handed to \<open>dbJob.updateAttributes\<close> (lines 89-95); \<open>None\<close> is
  \<open>undefined\<close>.\<close>

record job_attrs =
  db_state :: state
  db_fileUuid :: "string option"
  db_started :: "int option"
  db_elapsed :: int
  db_percentComplete :: int

text \<open>Everything the job does to its collaborators, in the order it happens: the log,
  the job table of the database, the socket broadcast and the bot of the job.\<close>

datatype effect =
  LogInfoTransition event "state option" state
  | DbFindById "nat option"
  | DbUpdateAttributes job_attrs
  | LogInfoUpdated event state
  | LogInfoUpdateFailed event
  | LogInfoJobEvent job_json
  | Broadcast string job_json
  | LogErrorFsm event state
  | BotStartJob string
  | BotPause string
  | BotResume string
  | BotCancel string
  | LogError string

text \<open>Modelled from the spec: the Timing Tracker (the timer-stopwatch package, not under
  src/): \<open>start()\<close> resumes counting from the last stopped value, \<open>stop()\<close> freezes it;
  \<open>ms\<close> is the elapsed time it reports.\<close>

record stopwatch =
  ms :: int
  running :: bool

definition stopwatch_start :: "stopwatch \<Rightarrow> stopwatch" where
  "stopwatch_start sw = sw\<lparr>running := True\<rparr>"

definition stopwatch_stop :: "stopwatch \<Rightarrow> stopwatch" where
  "stopwatch_stop sw = sw\<lparr>running := False\<rparr>"

text \<open>The \<open>onenterstate\<close> callback is asynchronous and nobody waits for it: on an event
  whose name contains \<open>Done\<close> it suspends three times (lines 87, 88 and 89) and goes on
  later, whatever the job has become. A suspended callback is the event it was called for
  and the place where it waits: for \<open>findById\<close> (line 87), for the delay (line 88; the flag
  says whether \<open>findById\<close> gave a record and not \<open>null\<close>), or for \<open>updateAttributes\<close>
  (line 89).\<close>

datatype waiting = AwaitFind | AwaitDelay bool | AwaitUpdate

text \<open>The fields of a \<open>Job\<close> object after \<open>initialize\<close>; \<open>None\<close> is \<open>undefined\<close>.
  \<open>fsm_current\<close> is \<open>this.fsm.current\<close>, \<open>job_id\<close> is \<open>this.id\<close>, \<open>trace\<close> collects
  the effects of the job, oldest first, and \<open>pending\<close> holds the suspended \<open>onenterstate\<close>
  callbacks of the job.\<close>

record job =
  botUuid :: string
  fileUuid :: "string option"
  uuid :: string
  job_id :: "nat option"
  fsm_current :: state
  stopwatch :: stopwatch
  started :: "int option"
  elapsed :: "int option"
  percentComplete :: int
  trace :: "effect list"
  pending :: "(event \<times> waiting) list"

definition emit :: "effect \<Rightarrow> job \<Rightarrow> job" where
  "emit e j = j\<lparr>trace := trace j @ [e]\<rparr>"

text \<open>JavaScript truthiness of a number that may be \<open>undefined\<close>: \<open>undefined\<close> and \<open>0\<close>
  are falsy.\<close>

fun truthy :: "int option \<Rightarrow> bool" where
  "truthy None = False"
| "truthy (Some n) = (n \<noteq> 0)"

text \<open>\<open>Job.prototype.getJob\<close> (lines 171-184). \<open>this.fsm.current\<close> is always a state name
  once the machine exists, so the fallback to \<open>'ready'\<close> is never taken.\<close>

definition getJob :: "job \<Rightarrow> job_json" where
  "getJob j =
    \<lparr> j_botUuid = botUuid j,
      j_uuid = uuid j,
      j_state = fsm_current j,
      j_fileUuid = (case fileUuid j of None \<Rightarrow> JFalse | Some f \<Rightarrow> JFile f),
      j_started =
        (case started j of
           None \<Rightarrow> JNull
         | Some n \<Rightarrow> if truthy (Some n) then JNum n else JNull),
      j_elapsed =
        (if truthy (started j)
         then (if ms (stopwatch j) \<noteq> 0 then JNum (ms (stopwatch j))
               else (case elapsed j of None \<Rightarrow> JUndefined | Some n \<Rightarrow> JNum n))
         else JNull),
      j_percentComplete = percentComplete j \<rparr>"

text \<open>The attributes that the callback hands to \<open>updateAttributes\<close> (lines 90-94), read
  from the job.\<close>

definition job_attributes :: "job \<Rightarrow> job_attrs" where
  "job_attributes j =
    \<lparr> db_state = fsm_current j,
      db_fileUuid = fileUuid j,
      db_started = started j,
      db_elapsed = ms (stopwatch j),
      db_percentComplete = percentComplete j \<rparr>"

subsection \<open>The collaborators of one command\<close>

text \<open>What the bot of the job answers to each operation of the Device Command Port
  (\<open>True\<close>: the promise resolves, \<open>False\<close>: it rejects).\<close>

record bot =
  startJob_ok :: bool
  pause_ok :: bool
  resume_ok :: bool
  cancel_ok :: bool

text \<open>What \<open>JobModel.findById\<close> answers: the record, \<open>null\<close>, or a rejection.\<close>

datatype find_result = Found | NotFound | FindRejected

text \<open>The surroundings of one command or of one continuation of a callback: the bots known
  to the application (\<open>app.context.bots.botList\<close>), what \<open>JobModel.findById\<close> answers,
  whether \<open>updateAttributes\<close> succeeds, and the clock (\<open>new Date().getTime()\<close>).\<close>

record env =
  botList :: "string \<rightharpoonup> bot"
  db_find :: find_result
  db_update_ok :: bool
  now :: int

datatype error =
  BotUuidUndefined
  | InvalidStateChange event state
  | NotSupported string

subsection \<open>The state machine\<close>

text \<open>Lines 101-106 of the callback: the projection of the job, as it is when they run, is
  logged and broadcast.\<close>

definition broadcast_update :: "job \<Rightarrow> job" where
  "broadcast_update j =
    (let j1 = emit (LogInfoJobEvent (getJob j)) j
     in emit (Broadcast (uuid j1) (getJob j1)) j1)"

text \<open>The \<open>onenterstate\<close> callback (lines 81-108), from its call to its first suspension or
  to its end. \<open>frm = None\<close> is the library's \<open>'none'\<close>. On an event whose name contains
  \<open>Done\<close> the callback calls \<open>findById\<close> and suspends; on any other event it runs to its
  end at once.\<close>

definition onenterstate :: "event \<Rightarrow> state option \<Rightarrow> state \<Rightarrow> job \<Rightarrow> job" where
  "onenterstate ev frm t j =
    (let j1 = emit (LogInfoTransition ev frm t) j in
     if frm \<noteq> None then
       (if indexOf (event_name ev) ''Done'' \<noteq> - 1
        then (emit (DbFindById (job_id j1)) j1)\<lparr>pending := pending j1 @ [(ev, AwaitFind)]\<rparr>
        else broadcast_update j1)
     else j1)"

text \<open>The \<open>catch\<close> of the callback (lines 97-99) and what follows it.\<close>

definition update_failed :: "event \<Rightarrow> job \<Rightarrow> job" where
  "update_failed ev j = broadcast_update (emit (LogInfoUpdateFailed ev) j)"

text \<open>The \<open>i\<close>-th suspended callback has gone.\<close>

definition drop_pending :: "nat \<Rightarrow> job \<Rightarrow> job" where
  "drop_pending i j = j\<lparr>pending := take i (pending j) @ drop (Suc i) (pending j)\<rparr>"

text \<open>The \<open>i\<close>-th suspended callback goes on from where it waits to its next suspension or
  to its end (lines 87-106); there is nothing to do if there is no such callback. Every
  value of the job that the callback uses (\<open>self.fsm.current\<close>, \<open>self.started\<close>,
  \<open>self.stopwatch.ms\<close>, \<open>self.getJob()\<close>) is read from the job as it is at that time.
  \<^item> After \<open>findById\<close>: a rejection goes to the \<open>catch\<close>; otherwise the callback waits for
    the delay.
  \<^item> After the delay: \<open>updateAttributes\<close> is called on the record with the attributes of
    lines 90-94, and the callback waits for it; on \<open>null\<close> that call throws and goes to
    the \<open>catch\<close>.
  \<^item> After \<open>updateAttributes\<close>: the success is logged with the current state (line 96),
    or the rejection goes to the \<open>catch\<close>; then the projection is logged and broadcast.\<close>

definition continue_callback :: "env \<Rightarrow> nat \<Rightarrow> job \<Rightarrow> job" where
  "continue_callback env i j =
    (if length (pending j) \<le> i then j
     else
       (case pending j ! i of
          (ev, AwaitFind) \<Rightarrow>
            (case db_find env of
               FindRejected \<Rightarrow> update_failed ev (drop_pending i j)
             | Found \<Rightarrow> j\<lparr>pending := (pending j)[i := (ev, AwaitDelay True)]\<rparr>
             | NotFound \<Rightarrow> j\<lparr>pending := (pending j)[i := (ev, AwaitDelay False)]\<rparr>)
        | (ev, AwaitDelay found) \<Rightarrow>
            (if found then
               (emit (DbUpdateAttributes (job_attributes j)) j)
               \<lparr>pending := (pending j)[i := (ev, AwaitUpdate)]\<rparr>
             else update_failed ev (drop_pending i j))
        | (ev, AwaitUpdate) \<Rightarrow>
            (if db_update_ok env
             then broadcast_update (emit (LogInfoUpdated ev (fsm_current j)) (drop_pending i j))
             else update_failed ev (drop_pending i j))))"

text \<open>The \<open>error\<close> handler of \<open>fsmSettings\<close> (lines 57-61): it logs the invalid state
  change and throws it.\<close>

definition fsm_error :: "event \<Rightarrow> state \<Rightarrow> job \<Rightarrow> (error + unit) \<times> job" where
  "fsm_error ev frm j = (Inl (InvalidStateChange ev frm), emit (LogErrorFsm ev frm) j)"

text \<open>Modelled from the spec: the dispatch of an event by the state machine (the
  javascript-state-machine package, not under src/). An event fired from a state with no
  matching row is handed to the \<open>error\<close> handler and the state is left as it is; a row that
  stays in the same state does nothing; any other row sets the current state and then
  calls \<open>onenterstate\<close>, without waiting for what the callback leaves suspended. The
  surroundings play no part in the event itself.\<close>

definition fire :: "env \<Rightarrow> event \<Rightarrow> job \<Rightarrow> (error + unit) \<times> job" where
  "fire env ev j =
    (case lookup_row events ev (fsm_current j) of
       None \<Rightarrow> fsm_error ev (fsm_current j) j
     | Some t \<Rightarrow>
         if t = fsm_current j then (Inr (), j)
         else (Inr (), onenterstate ev (Some (fsm_current j)) t (j\<lparr>fsm_current := t\<rparr>)))"

subsection \<open>Creating a job\<close>

text \<open>The parameters of the \<open>Job\<close> constructor that the job keeps; \<open>None\<close> is
  \<open>undefined\<close>.\<close>

record jobParams =
  p_botUuid :: "string option"
  p_fileUuid :: "string option"
  p_jobUuid :: "string option"
  p_initialState :: "state option"
  p_id :: "nat option"

text \<open>The constructor (lines 27-37) followed by \<open>Job.prototype.initialize\<close> (lines 46-127).
  \<open>fresh\<close> is the value of \<open>uuidGenerator.v1()\<close>. Creating the state machine enters the
  initial state from no state, which calls \<open>onenterstate\<close>.\<close>

definition initialize :: "jobParams \<Rightarrow> string \<Rightarrow> error + job" where
  "initialize params fresh =
    (case p_botUuid params of
       None \<Rightarrow> Inl BotUuidUndefined
     | Some b \<Rightarrow>
         (let initial = (case p_initialState params of None \<Rightarrow> Ready | Some s \<Rightarrow> s) in
          Inr (onenterstate Startup None initial
            \<lparr> botUuid = b,
              fileUuid = p_fileUuid params,
              uuid = (case p_jobUuid params of None \<Rightarrow> fresh | Some u \<Rightarrow> u),
              job_id = p_id params,
              fsm_current = initial,
              stopwatch = \<lparr> ms = 0, running = False \<rparr>,
              started = None,
              elapsed = None,
              percentComplete = 0,
              trace = [],
              pending = [] \<rparr>)))"

text \<open>The \<open>onTime\<close> callback of the stopwatch (lines 119-126), called by the stopwatch
  while it runs, after \<open>d\<close> more milliseconds.\<close>

definition onTime :: "int \<Rightarrow> job \<Rightarrow> job" where
  "onTime d j =
    (if running (stopwatch j) then
       (let j1 = j\<lparr>stopwatch := (stopwatch j)\<lparr>ms := ms (stopwatch j) + d\<rparr>\<rparr>;
            j2 = emit (LogInfoJobEvent (getJob j1)) j1
        in emit (Broadcast (uuid j2) (getJob j2)) j2)
     else j)"

subsection \<open>The commands\<close>

text \<open>A command either returns or throws; the job it leaves behind is there in both
  cases. \<open>bind_job\<close> runs the rest of a command after an event that did not throw.\<close>

definition bind_job ::
  "(error + unit) \<times> job \<Rightarrow> (job \<Rightarrow> (error + unit) \<times> job) \<Rightarrow> (error + unit) \<times> job" where
  "bind_job r f = (case r of (Inl e, j) \<Rightarrow> (Inl e, j) | (Inr u, j) \<Rightarrow> f j)"

text \<open>\<open>Job.prototype.start\<close> (lines 192-205). The \<open>try\<close> block throws when the job's bot is
  not in \<open>botList\<close>, when the bot rejects \<open>startJob\<close>, or when \<open>startDone\<close> throws.\<close>

definition start_catch :: "env \<Rightarrow> job \<Rightarrow> (error + unit) \<times> job" where
  "start_catch env j =
    bind_job (fire env StartFail j) (\<lambda>j1. (Inr (), emit (LogError ''Job start failure'') j1))"

definition start :: "env \<Rightarrow> job \<Rightarrow> (error + unit) \<times> job" where
  "start env j =
    bind_job (fire env Start j) (\<lambda>j1.
      case botList env (botUuid j1) of
        None \<Rightarrow> start_catch env j1
      | Some b \<Rightarrow>
          (let j2 = emit (BotStartJob (botUuid j1)) j1 in
           if startJob_ok b then
             (let j3 = j2\<lparr>started := Some (now env)\<rparr>;
                  j4 = j3\<lparr>stopwatch := stopwatch_start (stopwatch j3)\<rparr>
              in case fire env StartDone j4 of
                   (Inl e, j5) \<Rightarrow> start_catch env j5
                 | (Inr u, j5) \<Rightarrow> (Inr (), j5))
           else start_catch env j2))"

text \<open>\<open>Job.prototype.pause\<close> (lines 213-228).\<close>

definition pause_catch :: "env \<Rightarrow> job \<Rightarrow> (error + unit) \<times> job" where
  "pause_catch env j =
    bind_job (fire env PauseFail j) (\<lambda>j1. (Inr (), emit (LogError ''Job pause failure'') j1))"

definition pause :: "env \<Rightarrow> job \<Rightarrow> (error + unit) \<times> job" where
  "pause env j =
    (if fsm_current j = Paused then (Inr (), j)
     else
       bind_job (fire env Pause j) (\<lambda>j1.
         case botList env (botUuid j1) of
           None \<Rightarrow> pause_catch env j1
         | Some b \<Rightarrow>
             (let j2 = emit (BotPause (botUuid j1)) j1 in
              if pause_ok b then
                (let j3 = j2\<lparr>stopwatch := stopwatch_stop (stopwatch j2)\<rparr>
                 in case fire env PauseDone j3 of
                      (Inl e, j4) \<Rightarrow> pause_catch env j4
                    | (Inr u, j4) \<Rightarrow> (Inr (), j4))
              else pause_catch env j2)))"

text \<open>\<open>Job.prototype.resume\<close> (lines 236-251).\<close>

definition resume_catch :: "env \<Rightarrow> job \<Rightarrow> (error + unit) \<times> job" where
  "resume_catch env j =
    bind_job (fire env ResumeFail j) (\<lambda>j1. (Inr (), emit (LogError ''Job resume failure'') j1))"

definition resume :: "env \<Rightarrow> job \<Rightarrow> (error + unit) \<times> job" where
  "resume env j =
    (if fsm_current j = Running then (Inr (), j)
     else
       bind_job (fire env Resume j) (\<lambda>j1.
         case botList env (botUuid j1) of
           None \<Rightarrow> resume_catch env j1
         | Some b \<Rightarrow>
             (let j2 = emit (BotResume (botUuid j1)) j1 in
              if resume_ok b then
                (let j3 = j2\<lparr>stopwatch := stopwatch_start (stopwatch j2)\<rparr>
                 in case fire env ResumeDone j3 of
                      (Inl e, j4) \<Rightarrow> resume_catch env j4
                    | (Inr u, j4) \<Rightarrow> (Inr (), j4))
              else resume_catch env j2)))"

text \<open>\<open>Job.prototype.cancel\<close> (lines 259-275). The inner \<open>try\<close> swallows a missing bot and
  a rejected cancel; the outer \<open>catch\<close> logs and fires \<open>cancelFail\<close>.\<close>

definition cancel_catch :: "env \<Rightarrow> job \<Rightarrow> (error + unit) \<times> job" where
  "cancel_catch env j = fire env CancelFail (emit (LogError ''Job stop failure'') j)"

definition cancel :: "env \<Rightarrow> job \<Rightarrow> (error + unit) \<times> job" where
  "cancel env j =
    bind_job (fire env Cancel j) (\<lambda>j1.
      let j2 = (case botList env (botUuid j1) of
                  None \<Rightarrow> emit (LogError ''Bot can't be cancelled'') j1
                | Some b \<Rightarrow>
                    (let j1' = emit (BotCancel (botUuid j1)) j1 in
                     if cancel_ok b then j1'
                     else emit (LogError ''Bot can't be cancelled'') j1'));
          j3 = j2\<lparr>stopwatch := stopwatch_stop (stopwatch j2)\<rparr>
      in case fire env CancelDone j3 of
           (Inl e, j4) \<Rightarrow> cancel_catch env j4
         | (Inr u, j4) \<Rightarrow> (Inr (), j4))"

text \<open>\<open>Job.prototype.processCommand\<close> (lines 138-162): the reply is the projection of the
  job after the command; a command that throws, and a command of another name, reject.\<close>

definition reply :: "(error + unit) \<times> job \<Rightarrow> (error + job_json) \<times> job" where
  "reply r = (case r of (Inl e, j) \<Rightarrow> (Inl e, j) | (Inr u, j) \<Rightarrow> (Inr (getJob j), j))"

definition processCommand :: "env \<Rightarrow> string \<Rightarrow> job \<Rightarrow> (error + job_json) \<times> job" where
  "processCommand env command j =
    (if command = ''start'' then reply (start env j)
     else if command = ''pause'' then reply (pause env j)
     else if command = ''resume'' then reply (resume env j)
     else if command = ''cancel'' then reply (cancel env j)
     else (Inl (NotSupported command), j))"

subsection \<open>The life of a job\<close>

text \<open>What happens to a job after \<open>initialize\<close>: commands, each in its own surroundings,
  ticks of the stopwatch, and suspended callbacks going on, in any order. A command that
  rejects leaves the job as it is then.\<close>

datatype step = Command string env | Tick int | Continue nat env

fun step_job :: "step \<Rightarrow> job \<Rightarrow> job" where
  "step_job (Command c env) j = snd (processCommand env c j)"
| "step_job (Tick d) j = onTime d j"
| "step_job (Continue i env) j = continue_callback env i j"

fun run :: "step list \<Rightarrow> job \<Rightarrow> job" where
  "run [] j = j"
| "run (s # ss) j = run ss (step_job s j)"


fun broadcasts :: "effect list \<Rightarrow> job_json list" where
  "broadcasts [] = []"
| "broadcasts (Broadcast u p # es) = p # broadcasts es"
| "broadcasts (e # es) = broadcasts es"

fun bot_calls :: "effect list \<Rightarrow> effect list" where
  "bot_calls [] = []"
| "bot_calls (BotStartJob b # es) = BotStartJob b # bot_calls es"
| "bot_calls (BotPause b # es) = BotPause b # bot_calls es"
| "bot_calls (BotResume b # es) = BotResume b # bot_calls es"
| "bot_calls (BotCancel b # es) = BotCancel b # bot_calls es"
| "bot_calls (e # es) = bot_calls es"

fun transitions :: "effect list \<Rightarrow> (event \<times> state option \<times> state) list" where
  "transitions [] = []"
| "transitions (LogInfoTransition ev frm t # es) = (ev, frm, t) # transitions es"
| "transitions (e # es) = transitions es"

text \<open>The history of a job holds a transition on \<open>startDone\<close>: a start of the job has
  succeeded.\<close>

definition has_started :: "effect list \<Rightarrow> bool" where
  "has_started es = (StartDone \<in> set (map fst (transitions es)))"

text \<open>The \<open>try\<close> block of a command throws at the operation \<open>op\<close> of the bot: the job's bot
  is not in \<open>botList\<close>, or it rejects the operation.\<close>

definition bot_rejects :: "(bot \<Rightarrow> bool) \<Rightarrow> env \<Rightarrow> job \<Rightarrow> bool" where
  "bot_rejects op env j = (case botList env (botUuid j) of None \<Rightarrow> True | Some b \<Rightarrow> \<not> op b)"

text \<open>The effects that \<open>j'\<close> has added to those of \<open>j\<close>.\<close>

definition new_effects :: "job \<Rightarrow> job \<Rightarrow> effect list" where
  "new_effects j j' = drop (length (trace j)) (trace j')"



section \<open>Bot registry (src/unnamed/part_000)\<close>

text \<open>A row of the bot table, which is also the settings object of a bot (lines 53-67 and
  75-88): every value is a string.\<close>

record botSettings =
  port :: string
  name :: string
  jogXSpeed :: string
  jogYSpeed :: string
  jogZSpeed :: string
  jogESpeed :: string
  tempE :: string
  tempB :: string
  speedRatio :: string
  eRatio :: string
  offsetX :: string
  offsetY :: string
  offsetZ :: string

definition initialBotObject :: botSettings where
  "initialBotObject =
    \<lparr> port = ''null'',
      name = ''Default'',
      jogXSpeed = ''2000'',
      jogYSpeed = ''2000'',
      jogZSpeed = ''1000'',
      jogESpeed = ''120'',
      tempE = ''200'',
      tempB = ''60'',
      speedRatio = ''1.0'',
      eRatio = ''1.0'',
      offsetX = ''0'',
      offsetY = ''0'',
      offsetZ = ''0'' \<rparr>"

text \<open>A bot object, made by \<open>new Bot(app, botSettings)\<close> from its settings.\<close>

datatype botObject = Bot botSettings

datatype bots_effect =
  LogRouterSetup bool
  | FindAll
  | Create botSettings
  | NewBot botSettings
  | RunDiscovery
  | LogBotsInfo string
  | LogBotsError string

text \<open>The \<open>Bots\<close> object with the bot table of the database: \<open>bots\<close> is \<open>this.bots\<close> and
  \<open>bots_trace\<close> collects what \<open>initialize\<close> does, oldest first.

  Modelled from the spec: the Persistence Port of the bot table (the model \<open>./model/bot\<close>,
  not under src/): \<open>table\<close> holds the rows, \<open>findAll\<close> returns them in their order and
  \<open>create\<close> adds the row it is given.\<close>

record bots_state =
  bots :: "string \<rightharpoonup> botObject"
  table :: "botSettings list"
  bots_trace :: "bots_effect list"

text \<open>The constructor (lines 24-36), over a bot table.\<close>

definition new_Bots :: "botSettings list \<Rightarrow> bots_state" where
  "new_Bots rows = \<lparr> bots = Map.empty, table = rows, bots_trace = [] \<rparr>"

text \<open>Which of the awaited operations of \<open>initialize\<close> succeed: setting up the routes, the
  first \<open>findAll\<close>, \<open>create\<close>, the \<open>findAll\<close> after it, and \<open>setupDiscovery\<close>. Loading the
  model (\<open>botModel\<close>) and building a bot object (\<open>new Bot\<close>) are taken to return.\<close>

record bots_env =
  router_ok :: bool
  findAll_ok :: bool
  create_ok :: bool
  reload_ok :: bool
  discovery_ok :: bool

definition bots_emit :: "bots_effect \<Rightarrow> bots_state \<Rightarrow> bots_state" where
  "bots_emit e r = r\<lparr>bots_trace := bots_trace r @ [e]\<rparr>"

text \<open>The loop of lines 74-94: each row gives a bot object, stored under its port; a later
  row of the same port replaces the earlier one.\<close>

fun load_bots :: "botSettings list \<Rightarrow> bots_state \<Rightarrow> bots_state" where
  "load_bots [] r = r"
| "load_bots (dbBot # rest) r =
     load_bots rest ((bots_emit (NewBot dbBot) r)\<lparr>bots := (bots r)(port dbBot \<mapsto> Bot dbBot)\<rparr>)"

text \<open>The \<open>catch\<close> of \<open>initialize\<close> (lines 99-101).\<close>

definition init_failed :: "bots_state \<Rightarrow> bots_state" where
  "init_failed r = bots_emit (LogBotsError ''Bot initialization error'') r"

text \<open>Lines 73-98, once \<open>botsDbArray\<close> holds the rows to load.\<close>

definition load_and_discover :: "bots_env \<Rightarrow> botSettings list \<Rightarrow> bots_state \<Rightarrow> bots_state" where
  "load_and_discover env botsDbArray r =
    (let r1 = bots_emit RunDiscovery (load_bots botsDbArray r) in
     if discovery_ok env then bots_emit (LogBotsInfo ''Bots instance initialized'') r1
     else init_failed r1)"

text \<open>\<open>Bots.initialize\<close> (lines 41-102). \<open>setupRouter\<close> (lines 120-132) catches its own
  failure and only logs.\<close>

definition initialize_bots :: "bots_env \<Rightarrow> bots_state \<Rightarrow> bots_state" where
  "initialize_bots env r =
    (let r1 = bots_emit (LogRouterSetup (router_ok env)) r;
         r2 = bots_emit FindAll r1
     in if \<not> findAll_ok env then init_failed r2
        else if length (table r2) = 0 then
          (let r3 = bots_emit (Create initialBotObject) r2 in
           if \<not> create_ok env then init_failed r3
           else
             (let r4 = bots_emit FindAll (r3\<lparr>table := table r3 @ [initialBotObject]\<rparr>) in
              if \<not> reload_ok env then init_failed r4
              else load_and_discover env (table r4) r4))
        else load_and_discover env (table r2) r2)"

section \<open>Example jobs and surroundings\<close>

definition example_job :: "state \<Rightarrow> job" where
  "example_job s =
    \<lparr> botUuid = ''bot1'',
      fileUuid = Some ''file1'',
      uuid = ''job1'',
      job_id = Some 7,
      fsm_current = s,
      stopwatch = \<lparr> ms = 0, running = False \<rparr>,
      started = None,
      elapsed = None,
      percentComplete = 0,
      trace = [],
      pending = [] \<rparr>"

definition good_bot :: bot where
  "good_bot = \<lparr> startJob_ok = True, pause_ok = True, resume_ok = True, cancel_ok = True \<rparr>"

definition bad_bot :: bot where
  "bad_bot = \<lparr> startJob_ok = False, pause_ok = False, resume_ok = False, cancel_ok = False \<rparr>"

definition example_env :: "bot \<Rightarrow> env" where
  "example_env b =
    \<lparr> botList = [''bot1'' \<mapsto> b], db_find = Found, db_update_ok = True, now = 1000 \<rparr>"

definition example_params :: jobParams where
  "example_params =
    \<lparr> p_botUuid = Some ''bot1'', p_fileUuid = None, p_jobUuid = None,
      p_initialState = None, p_id = Some 7 \<rparr>"

definition example_initial :: job where
  "example_initial =
    \<lparr> botUuid = ''bot1'',
      fileUuid = None,
      uuid = ''u1'',
      job_id = Some 7,
      fsm_current = Ready,
      stopwatch = \<lparr> ms = 0, running = False \<rparr>,
      started = None,
      elapsed = None,
      percentComplete = 0,
      trace = [LogInfoTransition Startup None Ready],
      pending = [] \<rparr>"

definition example_steps :: "step list" where
  "example_steps =
    [Command ''start'' (example_env bad_bot), Tick 10000, Command ''pause'' (example_env good_bot)]"

definition all_ok :: bots_env where
  "all_ok = \<lparr> router_ok = True, findAll_ok = True, create_ok = True, reload_ok = True,
      discovery_ok = True \<rparr>"





section \<open>Properties of the job execution engine\<close>

subsection \<open>The table and the callback\<close>

lemma done_events:
  "(indexOf (event_name ev) ''Done'' \<noteq> - 1) =
     (ev \<in> {StartDone, PauseDone, ResumeDone, RunningDone, CancelDone})"
  by (cases ev) (simp_all add: indexOf_def)

lemma lookup_events:
  "lookup_row events Start s = (if s = Ready then Some Starting else None)"
  "lookup_row events StartFail s = (if s = Starting then Some Ready else None)"
  "lookup_row events StartDone s = (if s = Starting then Some Running else None)"
  "lookup_row events Pause s =
     (if s = Running then Some Pausing else if s = Paused then Some Paused else None)"
  "lookup_row events PauseFail s = (if s = Pausing then Some Running else None)"
  "lookup_row events PauseDone s = (if s = Pausing then Some Paused else None)"
  "lookup_row events Resume s =
     (if s = Paused then Some Resuming else if s = Running then Some Running else None)"
  "lookup_row events ResumeFail s = (if s = Resuming then Some Paused else None)"
  "lookup_row events ResumeDone s = (if s = Resuming then Some Running else None)"
  "lookup_row events RunningDone s = (if s = Running then Some Complete else None)"
  "lookup_row events Cancel s = (if s \<in> set cancelable then Some Canceling else None)"
  "lookup_row events CancelFail s = (if s = Canceling then Some Canceled else None)"
  "lookup_row events CancelDone s = None"
  "lookup_row events Startup s = None"
  by (simp_all add: events_def)

lemma getJob_trace [simp]: "getJob (j\<lparr>trace := es\<rparr>) = getJob j"
  by (simp add: getJob_def)

lemma getJob_pending [simp]: "getJob (j\<lparr>pending := ps\<rparr>) = getJob j"
  by (simp add: getJob_def)

lemma onenterstate_Some:
  "onenterstate ev (Some s) t j =
     (if ev \<in> {StartDone, PauseDone, ResumeDone, RunningDone, CancelDone}
      then j\<lparr>trace := trace j @ [LogInfoTransition ev (Some s) t, DbFindById (job_id j)],
             pending := pending j @ [(ev, AwaitFind)]\<rparr>
      else j\<lparr>trace := trace j @ [LogInfoTransition ev (Some s) t,
             LogInfoJobEvent (getJob j), Broadcast (uuid j) (getJob j)]\<rparr>)"
  by (simp add: onenterstate_def done_events broadcast_update_def emit_def Let_def)

lemma onenterstate_None:
  "onenterstate ev None t j = j\<lparr>trace := trace j @ [LogInfoTransition ev None t]\<rparr>"
  by (simp add: onenterstate_def emit_def Let_def)

lemma fire_invalid:
  "lookup_row events ev (fsm_current j) = None \<Longrightarrow>
   fire env ev j =
     (Inl (InvalidStateChange ev (fsm_current j)), emit (LogErrorFsm ev (fsm_current j)) j)"
  by (simp add: fire_def fsm_error_def)

lemma start_invalid:
  "lookup_row events Start (fsm_current j) = None \<Longrightarrow>
   start env j =
     (Inl (InvalidStateChange Start (fsm_current j)), emit (LogErrorFsm Start (fsm_current j)) j)"
  by (simp add: start_def bind_job_def fire_invalid)

lemma pause_invalid:
  "lookup_row events Pause (fsm_current j) = None \<Longrightarrow>
   pause env j =
     (Inl (InvalidStateChange Pause (fsm_current j)), emit (LogErrorFsm Pause (fsm_current j)) j)"
  by (cases "fsm_current j = Paused") (simp_all add: pause_def bind_job_def fire_invalid lookup_events)

lemma resume_invalid:
  "lookup_row events Resume (fsm_current j) = None \<Longrightarrow>
   resume env j =
     (Inl (InvalidStateChange Resume (fsm_current j)), emit (LogErrorFsm Resume (fsm_current j)) j)"
  by (cases "fsm_current j = Running")
     (simp_all add: resume_def bind_job_def fire_invalid lookup_events)

lemma cancel_invalid:
  "lookup_row events Cancel (fsm_current j) = None \<Longrightarrow>
   cancel env j =
     (Inl (InvalidStateChange Cancel (fsm_current j)), emit (LogErrorFsm Cancel (fsm_current j)) j)"
  by (simp add: cancel_def bind_job_def fire_invalid)

lemma cancel_cancelable:
  assumes "fsm_current j \<in> set cancelable"
  shows "fst (cancel env j) = Inr ()" and "fsm_current (snd (cancel env j)) = Canceled"
proof -
  have ne: "fsm_current j \<noteq> Canceling"
    using assms by (auto simp add: cancelable_def)
  obtain j1 where j1: "fire env Cancel j = (Inr (), j1)" and s1: "fsm_current j1 = Canceling"
    using assms ne by (simp add: fire_def lookup_events onenterstate_Some)
  define j3 where "j3 = (let j2 = (case botList env (botUuid j1) of
                  None \<Rightarrow> emit (LogError ''Bot can't be cancelled'') j1
                | Some b \<Rightarrow>
                    (let j1' = emit (BotCancel (botUuid j1)) j1 in
                     if cancel_ok b then j1'
                     else emit (LogError ''Bot can't be cancelled'') j1'))
          in j2\<lparr>stopwatch := stopwatch_stop (stopwatch j2)\<rparr>)"
  have s3: "fsm_current j3 = Canceling"
    using s1 by (simp add: j3_def emit_def Let_def split: option.splits)
  have c: "cancel env j = cancel_catch env (emit (LogErrorFsm CancelDone Canceling) j3)"
    using j1 s3 by (simp add: cancel_def bind_job_def j3_def Let_def fire_invalid lookup_events)
  have "fsm_current (emit (LogError ''Job stop failure'')
          (emit (LogErrorFsm CancelDone Canceling) j3)) = Canceling"
    using s3 by (simp add: emit_def)
  then have "fst (cancel_catch env (emit (LogErrorFsm CancelDone Canceling) j3)) = Inr ()
     \<and> fsm_current (snd (cancel_catch env (emit (LogErrorFsm CancelDone Canceling) j3))) = Canceled"
    by (simp add: cancel_catch_def fire_def lookup_events onenterstate_Some)
  with c show "fst (cancel env j) = Inr ()" and "fsm_current (snd (cancel env j)) = Canceled"
    by simp_all
qed

lemma example_simps:
  "fsm_current (example_job s) = s"
  "botUuid (example_job s) = ''bot1''"
  "trace (example_job s) = []"
  "botList (example_env b) ''bot1'' = Some b"
  by (simp_all add: example_job_def example_env_def)

lemma transitions_append: "transitions (xs @ ys) = transitions xs @ transitions ys"
  by (induction xs rule: transitions.induct) simp_all

lemma start_ready:
  assumes "fsm_current j = Ready"
  shows "fst (start env j) = Inr ()"
    and "fsm_current (snd (start env j)) =
           (if bot_rejects startJob_ok env j then Ready else Running)"
    and "transitions (new_effects j (snd (start env j))) =
           (Start, Some Ready, Starting) #
           (if bot_rejects startJob_ok env j then [(StartFail, Some Starting, Ready)]
            else [(StartDone, Some Starting, Running)])"
  using assms
  by (simp_all add: start_def start_catch_def bind_job_def fire_def lookup_events
      onenterstate_Some emit_def Let_def bot_rejects_def new_effects_def transitions_append
      split: option.splits)

lemma pause_running:
  assumes "fsm_current j = Running"
  shows "fst (pause env j) = Inr ()"
    and "fsm_current (snd (pause env j)) =
           (if bot_rejects pause_ok env j then Running else Paused)"
    and "transitions (new_effects j (snd (pause env j))) =
           (Pause, Some Running, Pausing) #
           (if bot_rejects pause_ok env j then [(PauseFail, Some Pausing, Running)]
            else [(PauseDone, Some Pausing, Paused)])"
  using assms
  by (simp_all add: pause_def pause_catch_def bind_job_def fire_def lookup_events
      onenterstate_Some emit_def Let_def bot_rejects_def new_effects_def transitions_append
      split: option.splits)

lemma resume_paused:
  assumes "fsm_current j = Paused"
  shows "fst (resume env j) = Inr ()"
    and "fsm_current (snd (resume env j)) =
           (if bot_rejects resume_ok env j then Paused else Running)"
    and "transitions (new_effects j (snd (resume env j))) =
           (Resume, Some Paused, Resuming) #
           (if bot_rejects resume_ok env j then [(ResumeFail, Some Resuming, Paused)]
            else [(ResumeDone, Some Resuming, Running)])"
  using assms
  by (simp_all add: resume_def resume_catch_def bind_job_def fire_def lookup_events
      onenterstate_Some emit_def Let_def bot_rejects_def new_effects_def transitions_append
      split: option.splits)


lemma broadcasts_append: "broadcasts (xs @ ys) = broadcasts xs @ broadcasts ys"
  by (induction xs rule: broadcasts.induct) simp_all


lemma fire_frame:
  assumes "fire env ev j = (r, j')"
  shows "botUuid j' = botUuid j \<and> fileUuid j' = fileUuid j \<and> uuid j' = uuid j
     \<and> started j' = started j"
  using assms
  by (auto simp add: fire_def fsm_error_def emit_def onenterstate_Some
      split: option.splits if_splits)

lemma pause_frame:
  assumes "pause env j = (r, j')"
  shows "botUuid j' = botUuid j \<and> fileUuid j' = fileUuid j \<and> uuid j' = uuid j
     \<and> started j' = started j"
  using assms
  by (auto simp add: pause_def pause_catch_def bind_job_def Let_def emit_def
      split: prod.splits sum.splits option.splits if_splits dest!: fire_frame)

lemma resume_frame:
  assumes "resume env j = (r, j')"
  shows "botUuid j' = botUuid j \<and> fileUuid j' = fileUuid j \<and> uuid j' = uuid j
     \<and> started j' = started j"
  using assms
  by (auto simp add: resume_def resume_catch_def bind_job_def Let_def emit_def
      split: prod.splits sum.splits option.splits if_splits dest!: fire_frame)

lemma cancel_frame:
  assumes "cancel env j = (r, j')"
  shows "botUuid j' = botUuid j \<and> fileUuid j' = fileUuid j \<and> uuid j' = uuid j
     \<and> started j' = started j"
  using assms
  by (auto simp add: cancel_def cancel_catch_def bind_job_def Let_def emit_def
      split: prod.splits sum.splits option.splits if_splits dest!: fire_frame)

lemma start_frame:
  assumes "start env j = (r, j')"
  shows "botUuid j' = botUuid j \<and> fileUuid j' = fileUuid j \<and> uuid j' = uuid j
     \<and> (started j = None \<and> bot_rejects startJob_ok env j \<longrightarrow> started j' = None)"
  using assms
  by (auto simp add: start_def start_catch_def bind_job_def Let_def emit_def bot_rejects_def
      split: prod.splits sum.splits option.splits if_splits dest!: fire_frame)


lemma has_started_append: "has_started (xs @ ys) = (has_started xs \<or> has_started ys)"
  by (auto simp add: has_started_def transitions_append)

lemma has_started_simps:
  "has_started [] = False"
  "has_started (LogInfoTransition ev frm t # es) = (ev = StartDone \<or> has_started es)"
  "has_started (LogInfoJobEvent p # es) = has_started es"
  "has_started (Broadcast u p # es) = has_started es"
  "has_started (LogErrorFsm ev s # es) = has_started es"
  "has_started (LogError m # es) = has_started es"
  "has_started (BotStartJob b # es) = has_started es"
  "has_started (BotPause b # es) = has_started es"
  "has_started (BotResume b # es) = has_started es"
  "has_started (BotCancel b # es) = has_started es"
  by (auto simp add: has_started_def)

lemma has_started_emit:
  "has_started (trace (emit e j)) = (has_started (trace j) \<or> has_started [e])"
  by (simp add: emit_def has_started_append)

lemma fire_mono:
  assumes "fire env ev j = (r, j')" and "has_started (trace j)"
  shows "has_started (trace j')"
proof (cases "lookup_row events ev (fsm_current j)")
  case None
  with assms show ?thesis
    by (auto simp add: fire_def fsm_error_def has_started_emit)
next
  case (Some t)
  with assms show ?thesis
    by (auto simp add: fire_def onenterstate_Some has_started_append split: if_splits)
qed

lemma fire_Start_ok:
  assumes "fire env Start j = (Inr u, j')"
  shows "fsm_current j' = Starting"
  using assms
  by (auto simp add: fire_def fsm_error_def lookup_events onenterstate_Some split: if_splits)

lemma fire_StartDone:
  assumes "fire env StartDone j = (r, j')" and "fsm_current j = Starting"
  shows "r = Inr () \<and> has_started (trace j')"
  using assms
  by (auto simp add: fire_def lookup_events onenterstate_Some has_started_append
      has_started_simps)


lemma fire_monoD:
  assumes "fire env ev j = (r, j')"
  shows "has_started (trace j) \<longrightarrow> has_started (trace j')"
  using assms fire_mono by blast

lemma pause_mono:
  assumes "pause env j = (r, j')" and "has_started (trace j)"
  shows "has_started (trace j')"
  using assms
  by (auto simp add: pause_def pause_catch_def bind_job_def Let_def emit_def has_started_append
      split: prod.splits sum.splits option.splits if_splits dest!: fire_monoD)

lemma resume_mono:
  assumes "resume env j = (r, j')" and "has_started (trace j)"
  shows "has_started (trace j')"
  using assms
  by (auto simp add: resume_def resume_catch_def bind_job_def Let_def emit_def
      has_started_append
      split: prod.splits sum.splits option.splits if_splits dest!: fire_monoD)

lemma cancel_mono:
  assumes "cancel env j = (r, j')" and "has_started (trace j)"
  shows "has_started (trace j')"
  using assms
  by (auto simp add: cancel_def cancel_catch_def bind_job_def Let_def emit_def
      has_started_append
      split: prod.splits sum.splits option.splits if_splits dest!: fire_monoD)

lemma start_mono:
  assumes "start env j = (r, j')" and "has_started (trace j)"
  shows "has_started (trace j')"
  using assms
  by (auto simp add: start_def start_catch_def bind_job_def Let_def emit_def
      has_started_append
      split: prod.splits sum.splits option.splits if_splits dest!: fire_monoD)



lemma start_fresh:
  assumes "start env j = (r, j')" and "started j = None"
  shows "started j' = None \<or> has_started (trace j')"
proof -
  obtain r1 j1 where f1: "fire env Start j = (r1, j1)"
    by (cases "fire env Start j")
  have k1: "started j1 = None"
    using fire_frame [OF f1] assms(2) by simp
  show ?thesis
  proof (cases r1)
    case (Inl e)
    with f1 assms(1) have "j' = j1"
      by (simp add: start_def bind_job_def)
    with k1 show ?thesis by simp
  next
    case (Inr u)
    with f1 have s1: "fsm_current j1 = Starting"
      by (simp add: fire_Start_ok)
    define j2 where "j2 = emit (BotStartJob (botUuid j1)) j1"
    have k2: "started j2 = None" "fsm_current j2 = Starting"
      using k1 s1 by (simp_all add: j2_def emit_def)
    have failed: "started j'' = None" if "start_catch env x = (r, j'')" "started x = None"
      for x r j''
    proof -
      obtain r3 j3 where f3: "fire env StartFail x = (r3, j3)"
        by (cases "fire env StartFail x")
      have "started j3 = None"
        using fire_frame [OF f3] that(2) by simp
      with that(1) f3 show ?thesis
        by (cases r3) (auto simp add: start_catch_def bind_job_def emit_def)
    qed
    show ?thesis
    proof (cases "botList env (botUuid j1)")
      case None
      with f1 Inr assms(1) have "start_catch env j1 = (r, j')"
        by (simp add: start_def bind_job_def)
      from failed [OF this k1] show ?thesis by simp
    next
      case (Some b)
      show ?thesis
      proof (cases "startJob_ok b")
        case False
        with Some f1 Inr assms(1) have "start_catch env j2 = (r, j')"
          by (simp add: start_def bind_job_def j2_def Let_def)
        from failed [OF this k2(1)] show ?thesis by simp
      next
        case True
        define j4 where "j4 = j2\<lparr>started := Some (now env),
            stopwatch := stopwatch_start (stopwatch j2)\<rparr>"
        have s4: "fsm_current j4 = Starting"
          using k2 by (simp add: j4_def)
        obtain r5 j5 where f5: "fire env StartDone j4 = (r5, j5)"
          by (cases "fire env StartDone j4")
        from fire_StartDone [OF f5 s4] have r5: "r5 = Inr ()" and h5: "has_started (trace j5)"
          by simp_all
        from True Some f1 Inr assms(1) f5 r5 have "j' = j5"
          by (simp add: start_def bind_job_def j2_def j4_def Let_def)
        with h5 show ?thesis by simp
      qed
    qed
  qed
qed


lemma processCommand_cases:
  assumes "processCommand env c j = (r, j')"
  obtains r1 where "c = ''start''" "start env j = (r1, j')"
  | r1 where "c = ''pause''" "pause env j = (r1, j')"
  | r1 where "c = ''resume''" "resume env j = (r1, j')"
  | r1 where "c = ''cancel''" "cancel env j = (r1, j')"
  | "j' = j"
proof -
  have rep: "\<exists>r1. x = (r1, j')" if "reply x = (r, j')" for x
    using that by (cases x) (auto simp add: reply_def split: sum.splits)
  consider "c = ''start''" | "c = ''pause''" | "c = ''resume''" | "c = ''cancel''"
    | "c \<notin> {''start'', ''pause'', ''resume'', ''cancel''}"
    by blast
  then show ?thesis
  proof cases
    case 1
    with assms have "reply (start env j) = (r, j')" by (simp add: processCommand_def)
    from rep [OF this] 1 that(1) show ?thesis by blast
  next
    case 2
    with assms have "reply (pause env j) = (r, j')" by (simp add: processCommand_def)
    from rep [OF this] 2 that(2) show ?thesis by blast
  next
    case 3
    with assms have "reply (resume env j) = (r, j')" by (simp add: processCommand_def)
    from rep [OF this] 3 that(3) show ?thesis by blast
  next
    case 4
    with assms have "reply (cancel env j) = (r, j')" by (simp add: processCommand_def)
    from rep [OF this] 4 that(4) show ?thesis by blast
  next
    case 5
    with assms have "j' = j" by (simp add: processCommand_def)
    with that(5) show ?thesis by blast
  qed
qed

lemma processCommand_identity:
  assumes "processCommand env c j = (r, j')"
  shows "botUuid j' = botUuid j \<and> fileUuid j' = fileUuid j \<and> uuid j' = uuid j"
  using assms
proof (cases rule: processCommand_cases)
  case (1 r1)
  from start_frame [OF 1(2)] show ?thesis by simp
next
  case (2 r1)
  from pause_frame [OF 2(2)] show ?thesis by simp
next
  case (3 r1)
  from resume_frame [OF 3(2)] show ?thesis by simp
next
  case (4 r1)
  from cancel_frame [OF 4(2)] show ?thesis by simp
next
  case 5
  then show ?thesis by simp
qed

lemma processCommand_history:
  assumes "processCommand env c j = (r, j')" and "started j = None \<or> has_started (trace j)"
  shows "started j' = None \<or> has_started (trace j')"
  using assms(1)
proof (cases rule: processCommand_cases)
  case (1 r1)
  from assms(2) show ?thesis
  proof
    assume "started j = None"
    from start_fresh [OF 1(2) this] show ?thesis .
  next
    assume "has_started (trace j)"
    from start_mono [OF 1(2) this] show ?thesis by simp
  qed
next
  case (2 r1)
  from assms(2) pause_frame [OF 2(2)] pause_mono [OF 2(2)] show ?thesis by auto
next
  case (3 r1)
  from assms(2) resume_frame [OF 3(2)] resume_mono [OF 3(2)] show ?thesis by auto
next
  case (4 r1)
  from assms(2) cancel_frame [OF 4(2)] cancel_mono [OF 4(2)] show ?thesis by auto
next
  case 5
  with assms(2) show ?thesis by simp
qed

lemma continue_callback_frame:
  "botUuid (continue_callback env i j) = botUuid j
   \<and> fileUuid (continue_callback env i j) = fileUuid j
   \<and> uuid (continue_callback env i j) = uuid j
   \<and> started (continue_callback env i j) = started j
   \<and> fsm_current (continue_callback env i j) = fsm_current j
   \<and> transitions (trace (continue_callback env i j)) = transitions (trace j)"
  by (simp add: continue_callback_def update_failed_def broadcast_update_def drop_pending_def
      emit_def Let_def transitions_append
      split: prod.splits waiting.splits find_result.splits)

lemma step_job_identity:
  "botUuid (step_job s j) = botUuid j \<and> fileUuid (step_job s j) = fileUuid j
   \<and> uuid (step_job s j) = uuid j"
proof (cases s)
  case (Command c env)
  obtain r j' where p: "processCommand env c j = (r, j')"
    by (cases "processCommand env c j")
  with processCommand_identity [OF p] Command show ?thesis
    by simp
next
  case (Tick d)
  then show ?thesis
    by (simp add: onTime_def emit_def Let_def)
next
  case (Continue i env)
  with continue_callback_frame [of env i j] show ?thesis
    by simp
qed

lemma step_job_history:
  assumes "started j = None \<or> has_started (trace j)"
  shows "started (step_job s j) = None \<or> has_started (trace (step_job s j))"
proof (cases s)
  case (Command c env)
  obtain r j' where p: "processCommand env c j = (r, j')"
    by (cases "processCommand env c j")
  with processCommand_history [OF p assms] Command show ?thesis
    by simp
next
  case (Tick d)
  with assms show ?thesis
    by (auto simp add: onTime_def emit_def Let_def has_started_append)
next
  case (Continue i env)
  with assms continue_callback_frame [of env i j] show ?thesis
    by (auto simp add: has_started_def)
qed

lemma run_identity:
  "botUuid (run steps j) = botUuid j \<and> fileUuid (run steps j) = fileUuid j
   \<and> uuid (run steps j) = uuid j"
  by (induction steps arbitrary: j) (simp_all add: step_job_identity)

lemma run_history:
  "started j = None \<or> has_started (trace j) \<Longrightarrow>
   started (run steps j) = None \<or> has_started (trace (run steps j))"
proof (induction steps arbitrary: j)
  case Nil
  then show ?case by simp
next
  case (Cons s steps)
  from Cons.IH [OF step_job_history [OF Cons.prems]] show ?case
    by simp
qed





















lemma bot_calls_append: "bot_calls (xs @ ys) = bot_calls xs @ bot_calls ys"
  by (induction xs rule: bot_calls.induct) simp_all

lemma start_ready_result:
  assumes "fsm_current j = Ready"
  shows "(snd (start env j))\<lparr>trace := trace j\<rparr> =
           (if bot_rejects startJob_ok env j then j
            else j\<lparr>fsm_current := Running, started := Some (now env),
                   stopwatch := stopwatch_start (stopwatch j),
                   pending := pending j @ [(StartDone, AwaitFind)]\<rparr>)"
    and "bot_calls (new_effects j (snd (start env j))) =
           (if botList env (botUuid j) = None then [] else [BotStartJob (botUuid j)])"
  using assms
  by (simp_all add: start_def start_catch_def bind_job_def fire_def lookup_events
      onenterstate_Some emit_def Let_def bot_rejects_def new_effects_def bot_calls_append
      split: option.splits)

lemma pause_running_result:
  assumes "fsm_current j = Running"
  shows "(snd (pause env j))\<lparr>trace := trace j\<rparr> =
           (if bot_rejects pause_ok env j then j
            else j\<lparr>fsm_current := Paused,
                   stopwatch := stopwatch_stop (stopwatch j),
                   pending := pending j @ [(PauseDone, AwaitFind)]\<rparr>)"
    and "bot_calls (new_effects j (snd (pause env j))) =
           (if botList env (botUuid j) = None then [] else [BotPause (botUuid j)])"
  using assms
  by (simp_all add: pause_def pause_catch_def bind_job_def fire_def lookup_events
      onenterstate_Some emit_def Let_def bot_rejects_def new_effects_def bot_calls_append
      split: option.splits)

lemma resume_paused_result:
  assumes "fsm_current j = Paused"
  shows "(snd (resume env j))\<lparr>trace := trace j\<rparr> =
           (if bot_rejects resume_ok env j then j
            else j\<lparr>fsm_current := Running,
                   stopwatch := stopwatch_start (stopwatch j),
                   pending := pending j @ [(ResumeDone, AwaitFind)]\<rparr>)"
    and "bot_calls (new_effects j (snd (resume env j))) =
           (if botList env (botUuid j) = None then [] else [BotResume (botUuid j)])"
  using assms
  by (simp_all add: resume_def resume_catch_def bind_job_def fire_def lookup_events
      onenterstate_Some emit_def Let_def bot_rejects_def new_effects_def bot_calls_append
      split: option.splits)

lemma cancel_cancelable_result:
  assumes "fsm_current j \<in> set cancelable"
  shows "(snd (cancel env j))\<lparr>trace := trace j\<rparr> =
           j\<lparr>fsm_current := Canceled, stopwatch := stopwatch_stop (stopwatch j)\<rparr>"
    and "bot_calls (new_effects j (snd (cancel env j))) =
           (if botList env (botUuid j) = None then [] else [BotCancel (botUuid j)])"
    and "transitions (new_effects j (snd (cancel env j))) =
           [(Cancel, Some (fsm_current j), Canceling), (CancelFail, Some Canceling, Canceled)]"
proof -
  have ne: "fsm_current j \<noteq> Canceling"
    using assms by (auto simp add: cancelable_def)
  show "(snd (cancel env j))\<lparr>trace := trace j\<rparr> =
           j\<lparr>fsm_current := Canceled, stopwatch := stopwatch_stop (stopwatch j)\<rparr>"
    and "bot_calls (new_effects j (snd (cancel env j))) =
           (if botList env (botUuid j) = None then [] else [BotCancel (botUuid j)])"
    and "transitions (new_effects j (snd (cancel env j))) =
           [(Cancel, Some (fsm_current j), Canceling), (CancelFail, Some Canceling, Canceled)]"
    using assms ne
    by (simp_all add: cancel_def cancel_catch_def bind_job_def fire_def fsm_error_def
        lookup_events onenterstate_Some emit_def Let_def new_effects_def bot_calls_append
        transitions_append split: option.splits)
qed


lemma reply_start:
  assumes "lookup_row events Start (fsm_current j) \<noteq> None"
  shows "fst (processCommand env ''start'' j) = Inr (getJob (snd (processCommand env ''start'' j)))
      \<and> snd (processCommand env ''start'' j) = snd (start env j)
      \<and> (snd (start env j))\<lparr>trace := trace j\<rparr> =
           (if bot_rejects startJob_ok env j then j
            else j\<lparr>fsm_current := Running, started := Some (now env),
                   stopwatch := stopwatch_start (stopwatch j),
                   pending := pending j @ [(StartDone, AwaitFind)]\<rparr>)
      \<and> transitions (new_effects j (snd (start env j))) =
           (Start, Some Ready, Starting) #
           (if bot_rejects startJob_ok env j then [(StartFail, Some Starting, Ready)]
            else [(StartDone, Some Starting, Running)])
      \<and> bot_calls (new_effects j (snd (start env j))) =
           (if botList env (botUuid j) = None then [] else [BotStartJob (botUuid j)])"
proof -
  from assms have r: "fsm_current j = Ready"
    by (simp add: lookup_events split: if_splits)
  have f: "fst (start env j) = Inr ()"
    using r by (rule start_ready)
  show ?thesis
    using f start_ready(3) [OF r, of env] start_ready_result [OF r, of env]
    by (cases "start env j") (simp add: processCommand_def reply_def)
qed

lemma reply_pause:
  assumes "lookup_row events Pause (fsm_current j) = Some Pausing"
  shows "fst (processCommand env ''pause'' j) = Inr (getJob (snd (processCommand env ''pause'' j)))
      \<and> snd (processCommand env ''pause'' j) = snd (pause env j)
      \<and> (snd (pause env j))\<lparr>trace := trace j\<rparr> =
           (if bot_rejects pause_ok env j then j
            else j\<lparr>fsm_current := Paused,
                   stopwatch := stopwatch_stop (stopwatch j),
                   pending := pending j @ [(PauseDone, AwaitFind)]\<rparr>)
      \<and> transitions (new_effects j (snd (pause env j))) =
           (Pause, Some Running, Pausing) #
           (if bot_rejects pause_ok env j then [(PauseFail, Some Pausing, Running)]
            else [(PauseDone, Some Pausing, Paused)])
      \<and> bot_calls (new_effects j (snd (pause env j))) =
           (if botList env (botUuid j) = None then [] else [BotPause (botUuid j)])"
proof -
  from assms have r: "fsm_current j = Running"
    by (simp add: lookup_events split: if_splits)
  have f: "fst (pause env j) = Inr ()"
    using r by (rule pause_running)
  show ?thesis
    using f pause_running(3) [OF r, of env] pause_running_result [OF r, of env]
    by (cases "pause env j") (simp add: processCommand_def reply_def)
qed

lemma reply_pause_paused:
  assumes "lookup_row events Pause (fsm_current j) = Some Paused"
  shows "processCommand env ''pause'' j = (Inr (getJob j), j)"
proof -
  from assms have "fsm_current j = Paused"
    by (simp add: lookup_events split: if_splits)
  then show ?thesis
    by (simp add: processCommand_def reply_def pause_def)
qed

lemma reply_resume:
  assumes "lookup_row events Resume (fsm_current j) = Some Resuming"
  shows "fst (processCommand env ''resume'' j) = Inr (getJob (snd (processCommand env ''resume'' j)))
      \<and> snd (processCommand env ''resume'' j) = snd (resume env j)
      \<and> (snd (resume env j))\<lparr>trace := trace j\<rparr> =
           (if bot_rejects resume_ok env j then j
            else j\<lparr>fsm_current := Running,
                   stopwatch := stopwatch_start (stopwatch j),
                   pending := pending j @ [(ResumeDone, AwaitFind)]\<rparr>)
      \<and> transitions (new_effects j (snd (resume env j))) =
           (Resume, Some Paused, Resuming) #
           (if bot_rejects resume_ok env j then [(ResumeFail, Some Resuming, Paused)]
            else [(ResumeDone, Some Resuming, Running)])
      \<and> bot_calls (new_effects j (snd (resume env j))) =
           (if botList env (botUuid j) = None then [] else [BotResume (botUuid j)])"
proof -
  from assms have r: "fsm_current j = Paused"
    by (simp add: lookup_events split: if_splits)
  have f: "fst (resume env j) = Inr ()"
    using r by (rule resume_paused)
  show ?thesis
    using f resume_paused(3) [OF r, of env] resume_paused_result [OF r, of env]
    by (cases "resume env j") (simp add: processCommand_def reply_def)
qed

lemma reply_resume_running:
  assumes "lookup_row events Resume (fsm_current j) = Some Running"
  shows "processCommand env ''resume'' j = (Inr (getJob j), j)"
proof -
  from assms have "fsm_current j = Running"
    by (simp add: lookup_events split: if_splits)
  then show ?thesis
    by (simp add: processCommand_def reply_def resume_def)
qed

lemma reply_cancel:
  assumes "lookup_row events Cancel (fsm_current j) \<noteq> None"
  shows "fst (processCommand env ''cancel'' j) = Inr (getJob (snd (processCommand env ''cancel'' j)))
      \<and> snd (processCommand env ''cancel'' j) = snd (cancel env j)
      \<and> (snd (cancel env j))\<lparr>trace := trace j\<rparr> =
           j\<lparr>fsm_current := Canceled, stopwatch := stopwatch_stop (stopwatch j)\<rparr>
      \<and> transitions (new_effects j (snd (cancel env j))) =
           [(Cancel, Some (fsm_current j), Canceling), (CancelFail, Some Canceling, Canceled)]
      \<and> bot_calls (new_effects j (snd (cancel env j))) =
           (if botList env (botUuid j) = None then [] else [BotCancel (botUuid j)])"
proof -
  from assms have r: "fsm_current j \<in> set cancelable"
    by (simp add: lookup_events split: if_splits)
  have f: "fst (cancel env j) = Inr ()"
    using r by (rule cancel_cancelable)
  show ?thesis
    using f cancel_cancelable_result [OF r, of env]
    by (cases "cancel env j") (simp add: processCommand_def reply_def)
qed

lemma getJob_of_result: "x\<lparr>trace := t\<rparr> = y \<Longrightarrow> getJob x = getJob y"
  by (metis getJob_trace)

subsection \<open>Invalid transitions\<close>

text \<open>
  C2. An event fired from a state for which the transition table has no row is handed to
  the error handler of the machine: the invalid state change is logged and thrown to the
  caller of the event, and the job, its state included, is otherwise as it was. When the
  event is the first one of a command (\<open>start\<close>, \<open>pause\<close>, \<open>resume\<close>, \<open>cancel\<close>),
  \<open>processCommand\<close> rejects with that error and the job is likewise unchanged but for the
  log.
\<close>

theorem invalid_event_is_logged_and_raised:
  assumes "lookup_row events ev (fsm_current j) = None"
  shows "fire env ev j =
           (Inl (InvalidStateChange ev (fsm_current j)),
            j\<lparr>trace := trace j @ [LogErrorFsm ev (fsm_current j)]\<rparr>)
         \<and> ((c, ev) \<in> {(''start'', Start), (''pause'', Pause), (''resume'', Resume),
                        (''cancel'', Cancel)} \<longrightarrow>
            processCommand env c j =
              (Inl (InvalidStateChange ev (fsm_current j)),
               j\<lparr>trace := trace j @ [LogErrorFsm ev (fsm_current j)]\<rparr>))"
proof (intro conjI impI)
  show "fire env ev j =
      (Inl (InvalidStateChange ev (fsm_current j)),
       j\<lparr>trace := trace j @ [LogErrorFsm ev (fsm_current j)]\<rparr>)"
    using assms by (simp add: fire_invalid emit_def)
next
  assume "(c, ev) \<in> {(''start'', Start), (''pause'', Pause), (''resume'', Resume),
                    (''cancel'', Cancel)}"
  then consider "c = ''start''" "ev = Start" | "c = ''pause''" "ev = Pause"
    | "c = ''resume''" "ev = Resume" | "c = ''cancel''" "ev = Cancel"
    by blast
  then show "processCommand env c j =
      (Inl (InvalidStateChange ev (fsm_current j)),
       j\<lparr>trace := trace j @ [LogErrorFsm ev (fsm_current j)]\<rparr>)"
  proof cases
    case 1
    with assms show ?thesis
      by (simp add: processCommand_def reply_def start_invalid emit_def)
  next
    case 2
    with assms show ?thesis
      by (simp add: processCommand_def reply_def pause_invalid emit_def)
  next
    case 3
    with assms show ?thesis
      by (simp add: processCommand_def reply_def resume_invalid emit_def)
  next
    case 4
    with assms show ?thesis
      by (simp add: processCommand_def reply_def cancel_invalid emit_def)
  qed
qed

theorem invalid_event_is_logged_and_raised_witness:
  "lookup_row events Pause Canceled = None
   \<and> fst (fire (example_env good_bot) Pause (example_job Canceled))
       = Inl (InvalidStateChange Pause Canceled)
   \<and> fsm_current (snd (fire (example_env good_bot) Pause (example_job Canceled))) = Canceled
   \<and> trace (snd (fire (example_env good_bot) Pause (example_job Canceled)))
       = [LogErrorFsm Pause Canceled]
   \<and> fst (processCommand (example_env good_bot) ''pause'' (example_job Canceled))
       = Inl (InvalidStateChange Pause Canceled)
   \<and> fsm_current (snd (processCommand (example_env good_bot) ''pause'' (example_job Canceled)))
       = Canceled"
  using invalid_event_is_logged_and_raised
    [of Pause "example_job Canceled" "example_env good_bot" "''pause''"]
  by (simp add: lookup_events example_simps)

subsection \<open>Commands that do nothing or are refused\<close>

text \<open>
  C6. The pause command on a job that is already paused does nothing: \<open>pause\<close> returns at
  once with the job exactly as it was, so no bot is called, the state stays \<open>paused\<close> and
  nothing is logged, written or broadcast; \<open>processCommand\<close> replies with the projection
  of the unchanged job.
\<close>

theorem pause_when_paused_is_noop:
  assumes "fsm_current j = Paused"
  shows "pause env j = (Inr (), j) \<and> processCommand env ''pause'' j = (Inr (getJob j), j)"
  using assms by (simp add: pause_def processCommand_def reply_def)

theorem pause_when_paused_is_noop_witness:
  "fsm_current (example_job Paused) = Paused
   \<and> pause (example_env good_bot) (example_job Paused) = (Inr (), example_job Paused)
   \<and> processCommand (example_env good_bot) ''pause'' (example_job Paused)
       = (Inr (getJob (example_job Paused)), example_job Paused)"
  using pause_when_paused_is_noop [of "example_job Paused" "example_env good_bot"]
  by (simp add: example_simps)

text \<open>
  C7. The start command on a job in any state other than \<open>ready\<close> is refused: \<open>start\<close>
  throws the invalid state change of the event \<open>start\<close>, \<open>processCommand\<close> rejects with
  it, the job only gains the log entry of the error, and no operation of the bot is
  called.
\<close>

theorem start_rejected_unless_ready:
  assumes "fsm_current j \<noteq> Ready"
  shows "start env j =
           (Inl (InvalidStateChange Start (fsm_current j)),
            j\<lparr>trace := trace j @ [LogErrorFsm Start (fsm_current j)]\<rparr>)
         \<and> fst (processCommand env ''start'' j) = Inl (InvalidStateChange Start (fsm_current j))
         \<and> bot_calls (new_effects j (snd (processCommand env ''start'' j))) = []"
  using assms
  by (simp add: start_def processCommand_def reply_def bind_job_def fire_invalid lookup_events
      emit_def new_effects_def)

theorem start_rejected_unless_ready_witness:
  "fsm_current (example_job Running) \<noteq> Ready
   \<and> fst (processCommand (example_env good_bot) ''start'' (example_job Running))
       = Inl (InvalidStateChange Start Running)
   \<and> trace (snd (start (example_env good_bot) (example_job Running)))
       = [LogErrorFsm Start Running]
   \<and> bot_calls (new_effects (example_job Running)
        (snd (processCommand (example_env good_bot) ''start'' (example_job Running)))) = []"
  using start_rejected_unless_ready [of "example_job Running" "example_env good_bot"]
  by (simp add: example_simps)

subsection \<open>Cancelling\<close>

text \<open>
  C3. The cancel command on a job that is running, paused, starting, pausing or resuming
  always returns, and leaves the job in the state \<open>canceled\<close>, whatever the bot answers to
  its cancel operation (and also when the job's bot is unknown): \<open>processCommand\<close>
  resolves with the projection of the canceled job.
\<close>

theorem cancel_always_reaches_canceled:
  assumes "fsm_current j \<in> {Running, Paused, Starting, Pausing, Resuming}"
  shows "fst (processCommand env ''cancel'' j)
           = Inr (getJob (snd (processCommand env ''cancel'' j)))
         \<and> fsm_current (snd (processCommand env ''cancel'' j)) = Canceled"
proof -
  have c: "fsm_current j \<in> set cancelable"
    using assms by (simp add: cancelable_def)
  obtain r j' where r: "cancel env j = (r, j')"
    by (cases "cancel env j")
  with cancel_cancelable [OF c, of env] have "r = Inr ()" and "fsm_current j' = Canceled"
    by simp_all
  with r show ?thesis
    by (simp add: processCommand_def reply_def)
qed

theorem cancel_always_reaches_canceled_witness:
  "fsm_current (example_job Pausing) \<in> {Running, Paused, Starting, Pausing, Resuming}
   \<and> cancel_ok bad_bot = False
   \<and> fst (processCommand (example_env bad_bot) ''cancel'' (example_job Pausing))
       = Inr (getJob (snd (processCommand (example_env bad_bot) ''cancel'' (example_job Pausing))))
   \<and> fsm_current (snd (processCommand (example_env bad_bot) ''cancel'' (example_job Pausing)))
       = Canceled"
  using cancel_always_reaches_canceled [of "example_job Pausing" "example_env bad_bot"]
  by (simp add: example_simps bad_bot_def)

text \<open>
  C4. When the bot accepts the cancel operation, \<open>cancel\<close> fires the event \<open>cancelDone\<close>,
  for which the table has no row in the state \<open>canceling\<close> (nor in any other); the
  invalid state change is logged and thrown by the machine, caught inside \<open>cancel\<close>, which
  logs the failure and fires \<open>cancelFail\<close>; that transition takes the job from
  \<open>canceling\<close> to \<open>canceled\<close>, and \<open>cancel\<close> returns normally.
\<close>

theorem cancel_success_goes_through_cancelFail:
  assumes "fsm_current j \<in> set cancelable"
    and "botList env (botUuid j) = Some b" and "cancel_ok b"
  shows "lookup_row events CancelDone s = None
       \<and> cancel env j =
          (Inr (),
           j\<lparr>fsm_current := Canceled,
             stopwatch := stopwatch_stop (stopwatch j),
             trace := trace j @
               [LogInfoTransition Cancel (Some (fsm_current j)) Canceling,
                LogInfoJobEvent (getJob (j\<lparr>fsm_current := Canceling\<rparr>)),
                Broadcast (uuid j) (getJob (j\<lparr>fsm_current := Canceling\<rparr>)),
                BotCancel (botUuid j),
                LogErrorFsm CancelDone Canceling,
                LogError ''Job stop failure'',
                LogInfoTransition CancelFail (Some Canceling) Canceled,
                LogInfoJobEvent (getJob (j\<lparr>fsm_current := Canceled,
                   stopwatch := stopwatch_stop (stopwatch j)\<rparr>)),
                Broadcast (uuid j) (getJob (j\<lparr>fsm_current := Canceled,
                   stopwatch := stopwatch_stop (stopwatch j)\<rparr>))]\<rparr>)"
proof -
  have ne: "fsm_current j \<noteq> Canceling"
    using assms(1) by (auto simp add: cancelable_def)
  show ?thesis
    using assms ne
    by (simp add: cancel_def cancel_catch_def bind_job_def fire_def fsm_error_def lookup_events
        onenterstate_Some emit_def Let_def getJob_def)
qed

theorem cancel_success_goes_through_cancelFail_witness:
  "fsm_current (example_job Running) \<in> set cancelable
   \<and> botList (example_env good_bot) (botUuid (example_job Running)) = Some good_bot
   \<and> cancel_ok good_bot
   \<and> fst (cancel (example_env good_bot) (example_job Running)) = Inr ()
   \<and> fsm_current (snd (cancel (example_env good_bot) (example_job Running))) = Canceled
   \<and> bot_calls (trace (snd (cancel (example_env good_bot) (example_job Running))))
       = [BotCancel ''bot1'']"
  using cancel_success_goes_through_cancelFail
    [of "example_job Running" "example_env good_bot" good_bot Canceling]
  by (simp add: example_simps cancelable_def good_bot_def)

subsection \<open>Failing operations of the bot\<close>

text \<open>
  C5. When the operation of the bot fails (the bot rejects it, or the job's bot is
  unknown), the command returns normally and the job is back in the state it had: a
  failed start of a ready job goes \<open>ready\<close>, \<open>starting\<close>, \<open>ready\<close> through \<open>startFail\<close>; a
  failed pause of a running job goes \<open>running\<close>, \<open>pausing\<close>, \<open>running\<close> through
  \<open>pauseFail\<close>; a failed resume of a paused job goes \<open>paused\<close>, \<open>resuming\<close>, \<open>paused\<close>
  through \<open>resumeFail\<close>.
\<close>

theorem failed_operation_returns_to_prior_state:
  "(fsm_current j = Ready \<and> bot_rejects startJob_ok env j \<longrightarrow>
      fst (start env j) = Inr ()
      \<and> fsm_current (snd (start env j)) = Ready
      \<and> transitions (new_effects j (snd (start env j)))
          = [(Start, Some Ready, Starting), (StartFail, Some Starting, Ready)])
   \<and> (fsm_current j = Running \<and> bot_rejects pause_ok env j \<longrightarrow>
      fst (pause env j) = Inr ()
      \<and> fsm_current (snd (pause env j)) = Running
      \<and> transitions (new_effects j (snd (pause env j)))
          = [(Pause, Some Running, Pausing), (PauseFail, Some Pausing, Running)])
   \<and> (fsm_current j = Paused \<and> bot_rejects resume_ok env j \<longrightarrow>
      fst (resume env j) = Inr ()
      \<and> fsm_current (snd (resume env j)) = Paused
      \<and> transitions (new_effects j (snd (resume env j)))
          = [(Resume, Some Paused, Resuming), (ResumeFail, Some Resuming, Paused)])"
  by (simp add: start_ready pause_running resume_paused)

theorem failed_operation_returns_to_prior_state_witness:
  "bot_rejects startJob_ok (example_env bad_bot) (example_job Ready)
   \<and> fsm_current (snd (start (example_env bad_bot) (example_job Ready))) = Ready
   \<and> bot_rejects pause_ok (example_env bad_bot) (example_job Running)
   \<and> fsm_current (snd (pause (example_env bad_bot) (example_job Running))) = Running
   \<and> bot_rejects resume_ok (example_env bad_bot) (example_job Paused)
   \<and> fsm_current (snd (resume (example_env bad_bot) (example_job Paused))) = Paused"
  using failed_operation_returns_to_prior_state [of "example_job Ready" "example_env bad_bot"]
    failed_operation_returns_to_prior_state [of "example_job Running" "example_env bad_bot"]
    failed_operation_returns_to_prior_state [of "example_job Paused" "example_env bad_bot"]
  by (simp add: example_simps bot_rejects_def bad_bot_def)

text \<open>
  C10. For each of the commands \<open>start\<close>, \<open>pause\<close>, \<open>resume\<close> and \<open>cancel\<close> whose event
  has a row for the current state of the job, \<open>processCommand\<close> resolves, and its reply
  is the projection (\<open>getJob\<close>) of the job as the command has left it, in all surroundings.
  That job is the one the command function returns, and it is known in full but for the
  log. When the bot accepts: started, running and \<open>running\<close> after start; stopped and
  \<open>paused\<close> after pause; running and \<open>running\<close> after resume. When the bot rejects the
  operation or is unknown, the job is as it was before the command, so the failure shows
  only as the state of the reply: \<open>ready\<close> after a failed start, \<open>running\<close> after a failed
  pause, \<open>paused\<close> after a failed resume. After cancel the job is stopped and \<open>canceled\<close>
  whatever the bot answers. The transitions logged and the calls made to the bot are
  exactly those of the command. A pause of a paused job and a resume of a running job
  reply the projection of the unchanged job.
\<close>

theorem valid_command_resolves_with_projection:
  "(lookup_row events Start (fsm_current j) \<noteq> None \<longrightarrow>
      fst (processCommand env ''start'' j) = Inr (getJob (snd (processCommand env ''start'' j)))
      \<and> snd (processCommand env ''start'' j) = snd (start env j)
      \<and> (snd (start env j))\<lparr>trace := trace j\<rparr> =
           (if bot_rejects startJob_ok env j then j
            else j\<lparr>fsm_current := Running, started := Some (now env),
                   stopwatch := stopwatch_start (stopwatch j),
                   pending := pending j @ [(StartDone, AwaitFind)]\<rparr>)
      \<and> transitions (new_effects j (snd (start env j))) =
           (Start, Some Ready, Starting) #
           (if bot_rejects startJob_ok env j then [(StartFail, Some Starting, Ready)]
            else [(StartDone, Some Starting, Running)])
      \<and> bot_calls (new_effects j (snd (start env j))) =
           (if botList env (botUuid j) = None then [] else [BotStartJob (botUuid j)]))
   \<and> (lookup_row events Pause (fsm_current j) = Some Pausing \<longrightarrow>
      fst (processCommand env ''pause'' j) = Inr (getJob (snd (processCommand env ''pause'' j)))
      \<and> snd (processCommand env ''pause'' j) = snd (pause env j)
      \<and> (snd (pause env j))\<lparr>trace := trace j\<rparr> =
           (if bot_rejects pause_ok env j then j
            else j\<lparr>fsm_current := Paused,
                   stopwatch := stopwatch_stop (stopwatch j),
                   pending := pending j @ [(PauseDone, AwaitFind)]\<rparr>)
      \<and> transitions (new_effects j (snd (pause env j))) =
           (Pause, Some Running, Pausing) #
           (if bot_rejects pause_ok env j then [(PauseFail, Some Pausing, Running)]
            else [(PauseDone, Some Pausing, Paused)])
      \<and> bot_calls (new_effects j (snd (pause env j))) =
           (if botList env (botUuid j) = None then [] else [BotPause (botUuid j)]))
   \<and> (lookup_row events Pause (fsm_current j) = Some Paused \<longrightarrow>
      processCommand env ''pause'' j = (Inr (getJob j), j))
   \<and> (lookup_row events Resume (fsm_current j) = Some Resuming \<longrightarrow>
      fst (processCommand env ''resume'' j) = Inr (getJob (snd (processCommand env ''resume'' j)))
      \<and> snd (processCommand env ''resume'' j) = snd (resume env j)
      \<and> (snd (resume env j))\<lparr>trace := trace j\<rparr> =
           (if bot_rejects resume_ok env j then j
            else j\<lparr>fsm_current := Running,
                   stopwatch := stopwatch_start (stopwatch j),
                   pending := pending j @ [(ResumeDone, AwaitFind)]\<rparr>)
      \<and> transitions (new_effects j (snd (resume env j))) =
           (Resume, Some Paused, Resuming) #
           (if bot_rejects resume_ok env j then [(ResumeFail, Some Resuming, Paused)]
            else [(ResumeDone, Some Resuming, Running)])
      \<and> bot_calls (new_effects j (snd (resume env j))) =
           (if botList env (botUuid j) = None then [] else [BotResume (botUuid j)]))
   \<and> (lookup_row events Resume (fsm_current j) = Some Running \<longrightarrow>
      processCommand env ''resume'' j = (Inr (getJob j), j))
   \<and> (lookup_row events Cancel (fsm_current j) \<noteq> None \<longrightarrow>
      fst (processCommand env ''cancel'' j) = Inr (getJob (snd (processCommand env ''cancel'' j)))
      \<and> snd (processCommand env ''cancel'' j) = snd (cancel env j)
      \<and> (snd (cancel env j))\<lparr>trace := trace j\<rparr> =
           j\<lparr>fsm_current := Canceled, stopwatch := stopwatch_stop (stopwatch j)\<rparr>
      \<and> transitions (new_effects j (snd (cancel env j))) =
           [(Cancel, Some (fsm_current j), Canceling), (CancelFail, Some Canceling, Canceled)]
      \<and> bot_calls (new_effects j (snd (cancel env j))) =
           (if botList env (botUuid j) = None then [] else [BotCancel (botUuid j)]))"
  using reply_start [of j env] reply_pause [of j env] reply_pause_paused [of j env]
    reply_resume [of j env] reply_resume_running [of j env] reply_cancel [of j env]
  by blast

theorem valid_command_resolves_with_projection_witness:
  "lookup_row events Start (fsm_current (example_job Ready)) \<noteq> None
   \<and> bot_rejects startJob_ok (example_env bad_bot) (example_job Ready)
   \<and> fst (processCommand (example_env bad_bot) ''start'' (example_job Ready))
       = Inr (getJob (example_job Ready))
   \<and> fst (processCommand (example_env good_bot) ''start'' (example_job Ready))
       = Inr ((getJob (example_job Running))\<lparr>j_started := JNum 1000, j_elapsed := JUndefined\<rparr>)
   \<and> fst (processCommand (example_env good_bot) ''pause'' (example_job Running))
       = Inr (getJob (example_job Paused))
   \<and> processCommand (example_env good_bot) ''pause'' (example_job Paused)
       = (Inr (getJob (example_job Paused)), example_job Paused)
   \<and> fst (processCommand (example_env bad_bot) ''resume'' (example_job Paused))
       = Inr (getJob (example_job Paused))
   \<and> processCommand (example_env good_bot) ''resume'' (example_job Running)
       = (Inr (getJob (example_job Running)), example_job Running)
   \<and> fst (processCommand (example_env bad_bot) ''cancel'' (example_job Starting))
       = Inr (getJob (example_job Canceled))"
proof -
  let ?g = "example_env good_bot"
  let ?b = "example_env bad_bot"
  have l: "lookup_row events Start (fsm_current (example_job Ready)) \<noteq> None"
    "lookup_row events Pause (fsm_current (example_job Running)) = Some Pausing"
    "lookup_row events Pause (fsm_current (example_job Paused)) = Some Paused"
    "lookup_row events Resume (fsm_current (example_job Paused)) = Some Resuming"
    "lookup_row events Resume (fsm_current (example_job Running)) = Some Running"
    "lookup_row events Cancel (fsm_current (example_job Starting)) \<noteq> None"
    by (simp_all add: lookup_events example_job_def cancelable_def)
  have r: "bot_rejects startJob_ok ?b (example_job Ready)"
    "\<not> bot_rejects startJob_ok ?g (example_job Ready)"
    "\<not> bot_rejects pause_ok ?g (example_job Running)"
    "bot_rejects resume_ok ?b (example_job Paused)"
    by (simp_all add: bot_rejects_def example_simps bad_bot_def good_bot_def)
  note t = valid_command_resolves_with_projection
  have a: "fst (processCommand ?b ''start'' (example_job Ready))
      = Inr (getJob (example_job Ready))"
    using t [of "example_job Ready" ?b, THEN conjunct1] l r
    by (auto dest: getJob_of_result)
  have b: "fst (processCommand ?g ''start'' (example_job Ready))
      = Inr (getJob ((example_job Ready)\<lparr>fsm_current := Running, started := Some (now ?g),
           stopwatch := stopwatch_start (stopwatch (example_job Ready)),
           pending := pending (example_job Ready) @ [(StartDone, AwaitFind)]\<rparr>))"
    using t [of "example_job Ready" ?g, THEN conjunct1] l r
    by (auto dest: getJob_of_result)
  have c: "fst (processCommand ?g ''pause'' (example_job Running))
      = Inr (getJob ((example_job Running)\<lparr>fsm_current := Paused,
           stopwatch := stopwatch_stop (stopwatch (example_job Running)),
           pending := pending (example_job Running) @ [(PauseDone, AwaitFind)]\<rparr>))"
    using t [of "example_job Running" ?g, THEN conjunct2, THEN conjunct1] l r
    by (auto dest: getJob_of_result)
  have d: "processCommand ?g ''pause'' (example_job Paused)
      = (Inr (getJob (example_job Paused)), example_job Paused)"
    using t [of "example_job Paused" ?g, THEN conjunct2, THEN conjunct2, THEN conjunct1] l
    by simp
  have e: "fst (processCommand ?b ''resume'' (example_job Paused))
      = Inr (getJob (example_job Paused))"
    using t [of "example_job Paused" ?b, THEN conjunct2, THEN conjunct2, THEN conjunct2,
        THEN conjunct1] l r
    by (auto dest: getJob_of_result)
  have f: "processCommand ?g ''resume'' (example_job Running)
      = (Inr (getJob (example_job Running)), example_job Running)"
    using t [of "example_job Running" ?g, THEN conjunct2, THEN conjunct2, THEN conjunct2,
        THEN conjunct2, THEN conjunct1] l
    by simp
  have g: "fst (processCommand ?b ''cancel'' (example_job Starting))
      = Inr (getJob ((example_job Starting)\<lparr>fsm_current := Canceled,
           stopwatch := stopwatch_stop (stopwatch (example_job Starting))\<rparr>))"
    using t [of "example_job Starting" ?b, THEN conjunct2, THEN conjunct2, THEN conjunct2,
        THEN conjunct2, THEN conjunct2] l
    by (auto dest: getJob_of_result)
  show ?thesis
    apply (intro conjI)
    subgoal using l by simp
    subgoal using r by simp
    subgoal using a .
    subgoal using b by (simp add: example_job_def example_env_def getJob_def stopwatch_start_def)
    subgoal using c by (simp add: example_job_def getJob_def stopwatch_stop_def)
    subgoal using d .
    subgoal using e .
    subgoal using f .
    subgoal using g by (simp add: example_job_def getJob_def stopwatch_stop_def)
    done
qed

subsection \<open>What a transition writes and broadcasts\<close>





subsection \<open>The public projection\<close>

text \<open>
  C8. The projection returned by \<open>getJob\<close> has the fields botUuid, uuid, state, fileUuid,
  started, elapsed and percentComplete. For a job created by \<open>initialize\<close> and taken through
  any commands, stopwatch ticks and continuations of suspended callbacks, as long as its
  history holds no transition on
  \<open>startDone\<close> (no start of the job has succeeded), botUuid and uuid are those given at
  creation (the uuid a fresh one if none was given), fileUuid is \<open>false\<close> if no file was
  given and the file otherwise, state and percentComplete are the current ones, and started
  and elapsed are both \<open>null\<close>.
\<close>

theorem projection_of_job_never_started:
  assumes "initialize params fresh = Inr j0"
    and "\<not> has_started (trace (run steps j0))"
  shows "getJob (run steps j0) =
    \<lparr> j_botUuid = botUuid j0,
      j_uuid = (case p_jobUuid params of None \<Rightarrow> fresh | Some u \<Rightarrow> u),
      j_state = fsm_current (run steps j0),
      j_fileUuid = (case p_fileUuid params of None \<Rightarrow> JFalse | Some f \<Rightarrow> JFile f),
      j_started = JNull,
      j_elapsed = JNull,
      j_percentComplete = percentComplete (run steps j0) \<rparr>
    \<and> p_botUuid params = Some (botUuid j0)"
proof -
  from assms(1) obtain b where b: "p_botUuid params = Some b"
    by (auto simp add: initialize_def split: option.splits)
  with assms(1) have i: "botUuid j0 = b" "fileUuid j0 = p_fileUuid params"
    "uuid j0 = (case p_jobUuid params of None \<Rightarrow> fresh | Some u \<Rightarrow> u)" "started j0 = None"
    by (auto simp add: initialize_def onenterstate_None Let_def)
  from run_history [of j0 steps] i(4) assms(2) have "started (run steps j0) = None"
    by simp
  with run_identity [of steps j0] i b show ?thesis
    by (simp add: getJob_def)
qed

theorem projection_of_job_never_started_witness:
  "initialize example_params ''u1'' = Inr example_initial
   \<and> \<not> has_started (trace (run example_steps example_initial))
   \<and> fsm_current (run example_steps example_initial) = Ready
   \<and> j_botUuid (getJob (run example_steps example_initial)) = ''bot1''
   \<and> j_uuid (getJob (run example_steps example_initial)) = ''u1''
   \<and> j_fileUuid (getJob (run example_steps example_initial)) = JFalse
   \<and> j_started (getJob (run example_steps example_initial)) = JNull
   \<and> j_elapsed (getJob (run example_steps example_initial)) = JNull"
proof -
  have i: "initialize example_params ''u1'' = Inr example_initial"
    by (simp add: initialize_def example_params_def example_initial_def onenterstate_None)
  have r: "transitions (trace (run example_steps example_initial)) =
      [(Startup, None, Ready), (Start, Some Ready, Starting), (StartFail, Some Starting, Ready)]"
    and f: "fsm_current (run example_steps example_initial) = Ready"
    by (simp_all add: example_steps_def example_initial_def example_env_def bad_bot_def
        good_bot_def processCommand_def reply_def start_def start_catch_def pause_def
        bind_job_def fire_def fsm_error_def lookup_events onenterstate_Some emit_def onTime_def
        transitions_append)
  have s: "\<not> has_started (trace (run example_steps example_initial))"
    by (simp add: has_started_def r)
  from projection_of_job_never_started [OF i s] i s f show ?thesis
    by (simp add: example_params_def example_initial_def)
qed

section \<open>Properties of the bot registry\<close>

text \<open>
  C9. When \<open>Bots.initialize\<close> finds the bot table empty and the database operations
  succeed, it creates the default row (port \<open>null\<close>, name \<open>Default\<close>) and reads the table
  again before it builds any bot object: afterwards the table holds exactly that one row and
  the registry holds the bot built from it, under the key \<open>null\<close>, so it is not empty.
\<close>

theorem default_bot_created_when_table_empty:
  assumes "table r = []" and "findAll_ok env" and "create_ok env" and "reload_ok env"
  shows "table (initialize_bots env r) = [initialBotObject]
    \<and> bots (initialize_bots env r) = (bots r)(''null'' \<mapsto> Bot initialBotObject)
    \<and> bots_trace (initialize_bots env r) = bots_trace r @
        [LogRouterSetup (router_ok env), FindAll, Create initialBotObject, FindAll,
         NewBot initialBotObject, RunDiscovery,
         (if discovery_ok env then LogBotsInfo ''Bots instance initialized''
          else LogBotsError ''Bot initialization error'')]"
  using assms
  by (simp add: initialize_bots_def load_and_discover_def init_failed_def bots_emit_def Let_def
      initialBotObject_def)

theorem default_bot_created_when_table_empty_witness:
  "table (new_Bots []) = [] \<and> findAll_ok all_ok \<and> create_ok all_ok \<and> reload_ok all_ok
   \<and> table (initialize_bots all_ok (new_Bots [])) = [initialBotObject]
   \<and> dom (bots (initialize_bots all_ok (new_Bots []))) = {''null''}
   \<and> bots (initialize_bots all_ok (new_Bots [])) ''null'' = Some (Bot initialBotObject)"
  using default_bot_created_when_table_empty [of "new_Bots []" all_ok]
  by (simp add: new_Bots_def all_ok_def)

end
